theory Spec2Isabelle
  imports Main "HOL-Library.Word"
begin

section \<open>C strings and formatted output\<close>

text \<open>
  Bytes are \<^typ>\<open>char\<close>, byte sequences are \<^typ>\<open>string\<close>. A \<^verbatim>\<open>char *\<close> that the C
  library reads as a string denotes the bytes before the first NUL byte: \<open>cstr\<close> is that
  view. \<^verbatim>\<open>strcmp(a, b) == 0\<close> and \<^verbatim>\<open>strncmp(a, b, n) == 0\<close> are \<open>strcmp_eq\<close> and
  \<open>strncmp_eq\<close>; only the comparison with zero is used by proxy.c.
\<close>

definition cstr :: "string \<Rightarrow> string" where
  "cstr s = takeWhile (\<lambda>c. c \<noteq> CHR 0x00) s"

definition strlen :: "string \<Rightarrow> nat" where
  "strlen s = length (cstr s)"

definition strcmp_eq :: "string \<Rightarrow> string \<Rightarrow> bool" where
  "strcmp_eq a b \<longleftrightarrow> cstr a = cstr b"

definition strncmp_eq :: "string \<Rightarrow> string \<Rightarrow> nat \<Rightarrow> bool" where
  "strncmp_eq a b n \<longleftrightarrow> take n (cstr a) = take n (cstr b)"

text \<open>Decimal output of \<^verbatim>\<open>%u\<close> and \<^verbatim>\<open>%d\<close>; \<^verbatim>\<open>%s\<close> prints the C-string view.\<close>

definition digit_char :: "nat \<Rightarrow> char" where
  "digit_char d = char_of (48 + d)"

fun dec_nat :: "nat \<Rightarrow> string" where
  "dec_nat n = (if n < 10 then [digit_char n] else dec_nat (n div 10) @ [digit_char (n mod 10)])"

declare dec_nat.simps [simp del]

definition fmt_u :: "32 word \<Rightarrow> string" where
  "fmt_u w = dec_nat (unat w)"

definition fmt_d :: "int \<Rightarrow> string" where
  "fmt_d i = (if i < 0 then ''-'' @ dec_nat (nat (- i)) else dec_nat (nat i))"

definition fmt_s :: "string \<Rightarrow> string" where
  "fmt_s s = cstr s"

text \<open>
  \<^verbatim>\<open>asprintf\<close> and \<^verbatim>\<open>malloc\<close> return a null pointer when memory is exhausted. The heap
  is taken to be large enough throughout: both always deliver. Their results stay
  optional so that the null checks of the source keep their place in the model.
\<close>

definition asprintf :: "string \<Rightarrow> string option" where
  "asprintf formatted = Some formatted"

definition malloc_copy :: "string \<Rightarrow> string option" where
  "malloc_copy bytes = Some bytes"

subsection \<open>The conversion \<^verbatim>\<open>%6x\<close> of sscanf\<close>

text \<open>
  White space is skipped; the input item is the longest prefix of at most six characters
  that is, or is a prefix of, an optionally signed hexadecimal integer with an optional
  \<^verbatim>\<open>0x\<close>. An item with digits is stored as their value, negated when the sign is a
  minus. The C library that the program links stores 0 for an item that ends with the
  prefix \<^verbatim>\<open>0x\<close> or \<^verbatim>\<open>0X\<close>, with no digit behind it. An item with neither the
  prefix nor a digit is a matching failure and nothing is stored: the result \<open>None\<close>.
\<close>

definition isspace :: "char \<Rightarrow> bool" where
  "isspace c \<longleftrightarrow> c \<in> set [CHR 0x20, CHR 0x09, CHR 0x0A, CHR 0x0B, CHR 0x0C, CHR 0x0D]"

definition hexdigit :: "char \<Rightarrow> nat option" where
  "hexdigit c =
     (let n = (of_char c :: nat) in
      if 48 \<le> n \<and> n \<le> 57 then Some (n - 48)
      else if 97 \<le> n \<and> n \<le> 102 then Some (n - 87)
      else if 65 \<le> n \<and> n \<le> 70 then Some (n - 55)
      else None)"

fun hex_digits :: "nat \<Rightarrow> string \<Rightarrow> nat list" where
  "hex_digits 0 s = []"
| "hex_digits (Suc w) [] = []"
| "hex_digits (Suc w) (c # cs) =
     (case hexdigit c of None \<Rightarrow> [] | Some d \<Rightarrow> d # hex_digits w cs)"

definition hex_value :: "nat list \<Rightarrow> nat" where
  "hex_value ds = foldl (\<lambda>a d. 16 * a + d) 0 ds"

definition scan_sign :: "string \<Rightarrow> bool \<times> nat \<times> string" where
  "scan_sign t =
     (case t of
        [] \<Rightarrow> (False, 6, [])
      | c # r \<Rightarrow>
          if c = CHR ''-'' then (True, 5, r)
          else if c = CHR ''+'' then (False, 5, r)
          else (False, 6, t))"

definition scan_prefix :: "nat \<Rightarrow> string \<Rightarrow> bool \<times> nat \<times> string" where
  "scan_prefix w t =
     (case t of
        c1 # c2 # r \<Rightarrow>
          if c1 = CHR ''0'' \<and> (c2 = CHR ''x'' \<or> c2 = CHR ''X'') \<and> 2 \<le> w
          then (True, w - 2, r) else (False, w, t)
      | _ \<Rightarrow> (False, w, t))"

definition sscanf_6x :: "string \<Rightarrow> 32 word option" where
  "sscanf_6x s =
     (let (neg, w, t1) = scan_sign (dropWhile isspace (cstr s));
          (prefixed, w2, t2) = scan_prefix w t1;
          ds = hex_digits w2 t2
      in if ds = [] \<and> \<not> prefixed then None
         else Some (if neg then - of_nat (hex_value ds) else of_nat (hex_value ds)))"

section \<open>Growable byte buffer (buffer.h)\<close>

text \<open>
  \<^verbatim>\<open>struct buffer\<close> has the fields \<^verbatim>\<open>data\<close>, \<^verbatim>\<open>len\<close> and \<^verbatim>\<open>sz\<close>. \<open>data\<close> is the
  byte region from its start, \<open>len\<close> the number of valid bytes; the capacity \<^verbatim>\<open>sz\<close>
  only steers reallocation and has no field here. \<open>contents\<close> is what a reader of the
  buffer sees.
\<close>

record buffer =
  data :: string
  len :: nat

definition contents :: "buffer \<Rightarrow> string" where
  "contents b = take (len b) (data b)"

text \<open>
  buffer.c, which implements the operations declared in buffer.h, is not among the
  sources; the four operations used by proxy.c follow section 4.1 of the specification.
\<close>

text \<open>Modelled from the spec: buffer.c is missing; \<^verbatim>\<open>append(bytes)\<close> copies the first
  \<open>n\<close> bytes of the input behind the current content, growing the capacity as needed.\<close>

definition buffer_append :: "buffer \<Rightarrow> string \<Rightarrow> nat \<Rightarrow> buffer" where
  "buffer_append b src n = \<lparr>data = contents b @ take n src, len = len b + n\<rparr>"

text \<open>Modelled from the spec: buffer.c is missing; \<^verbatim>\<open>append_buffer(other)\<close> is the
  convenience form of append for the content of another buffer.\<close>

definition buffer_append_buf :: "buffer \<Rightarrow> buffer \<Rightarrow> buffer" where
  "buffer_append_buf dst src = buffer_append dst (data src) (len src)"

text \<open>Modelled from the spec: buffer.c is missing; \<^verbatim>\<open>append_text(string)\<close> is the
  convenience form of append for a NUL-terminated string, without its terminator.\<close>

definition buffer_append_str :: "buffer \<Rightarrow> string \<Rightarrow> buffer" where
  "buffer_append_str b s = buffer_append b (cstr s) (strlen s)"

text \<open>Modelled from the spec: buffer.c is missing; \<^verbatim>\<open>clear()\<close> resets the length to
  zero without releasing the region.\<close>

definition buffer_clear :: "buffer \<Rightarrow> buffer" where
  "buffer_clear b = b\<lparr>len := 0\<rparr>"

section \<open>Session state (proxy.c)\<close>

text \<open>
  The declarations of room.h, parser.h, proxy.h and color.h are not among the sources;
  the types below have the fields that proxy.c reads and writes. A room's three strings
  are \<^verbatim>\<open>char *\<close> fields (the field \<^verbatim>\<open>id\<close> is named \<open>room_id\<close> here). The tag code
  is printed with \<^verbatim>\<open>%d\<close> and switched on, so it is an integer.
\<close>

record room =
  room_id :: string
  area :: string
  direction :: string

record bc_tag =
  code :: int

record bc_parser =
  tag :: "bc_tag option"

record proxy_state =
  obuf :: buffer
  tmpbuf :: buffer
  argstr :: "string option"
  room :: "room option"

text \<open>
  What proxy.c calls but does not define: the palette function \<^verbatim>\<open>rgb_to_xterm\<close>, whose
  result is printed with \<^verbatim>\<open>%u\<close>, and the location decoder \<^verbatim>\<open>room_new\<close>, which returns
  a null pointer on failure. \<open>rgb_garbage\<close> is the value that the uninitialised local
  \<^verbatim>\<open>rgb\<close> of \<^verbatim>\<open>on_close\<close> holds when sscanf stores nothing.
\<close>

record extern =
  rgb_to_xterm :: "32 word \<Rightarrow> 32 word"
  room_new :: "string \<Rightarrow> room option"
  rgb_garbage :: "32 word"

datatype error = AssertionFailed

definition known_codes :: "int list" where
  "known_codes = [5, 6, 10, 11, 20, 21, 22, 23, 24, 25, 31, 40, 41, 42,
                  50, 51, 52, 53, 54, 60, 64, 70, 99]"

subsection \<open>The branches of the switch in \<^verbatim>\<open>on_close\<close>\<close>

text \<open>
  Each function is one case body; \<open>tmpstr\<close> is the start of the scratch region, read
  as a C string. A \<^verbatim>\<open>break\<close> returns the state reached so far.
\<close>

definition close_message :: "string \<Rightarrow> proxy_state \<Rightarrow> proxy_state" where
  "close_message tmpstr st =
     (case argstr st of
        None \<Rightarrow> st\<lparr>obuf := buffer_append_buf (obuf st) (tmpbuf st)\<rparr>
      | Some a \<Rightarrow>
          if strcmp_eq a ''spec_prompt'' then
            (let st1 = st\<lparr>obuf := buffer_append_buf (obuf st) (tmpbuf st)\<rparr>
             in st1\<lparr>obuf := buffer_append_str (obuf st1) [CHR 0xFF, CHR 0xF9]\<rparr>)
          else if strcmp_eq a ''spec_map'' then
            (if strcmp_eq tmpstr ''NoMapSupport'' then st
             else st\<lparr>obuf := buffer_append_buf (obuf st) (tmpbuf st)\<rparr>)
          else
            (let st1 = st\<lparr>obuf := buffer_append_str (obuf st) a\<rparr>;
                 st2 = st1\<lparr>obuf := buffer_append_str (obuf st1) '': ''\<rparr>
             in st2\<lparr>obuf := buffer_append_buf (obuf st2) (tmpbuf st2)\<rparr>))"

definition color_escape :: "bool \<Rightarrow> 32 word \<Rightarrow> string \<Rightarrow> string" where
  "color_escape is_fg idx tmpstr =
     [CHR 0x1B] @ ''['' @ fmt_u (if is_fg then 3 else 4) @ ''8;5;'' @ fmt_u idx @ ''m''
       @ fmt_s tmpstr @ [CHR 0x1B] @ ''[0m''"

definition close_color :: "extern \<Rightarrow> int \<Rightarrow> string \<Rightarrow> proxy_state \<Rightarrow> proxy_state" where
  "close_color e c tmpstr st =
     (case argstr st of
        None \<Rightarrow> st
      | Some a \<Rightarrow>
          (let is_fg = (c = 20);
               rgb = (case sscanf_6x a of Some v \<Rightarrow> v | None \<Rightarrow> rgb_garbage e)
           in case asprintf (color_escape is_fg (rgb_to_xterm e rgb) tmpstr) of
                None \<Rightarrow> st
              | Some out \<Rightarrow> st\<lparr>obuf := buffer_append_str (obuf st) out\<rparr>))"

definition close_labelled :: "string \<Rightarrow> proxy_state \<Rightarrow> proxy_state" where
  "close_labelled label st =
     (let st1 = st\<lparr>obuf := buffer_append_str (obuf st) label\<rparr>;
          st2 = st1\<lparr>obuf := buffer_append_buf (obuf st1) (tmpbuf st1)\<rparr>
      in st2\<lparr>obuf := buffer_append_str (obuf st2) [CHR 0x0A]\<rparr>)"

definition exited_msg :: "room option \<Rightarrow> string" where
  "exited_msg r =
     ''Exited to map from '' @ fmt_s (case r of Some old \<Rightarrow> area old | None \<Rightarrow> ''(unknown)'')
       @ ''.'' @ [CHR 0x0A]"

definition entered_msg :: "room \<Rightarrow> string" where
  "entered_msg new =
     ''Entered area '' @ fmt_s (area new) @ '' with direction '' @ fmt_s (direction new)
       @ [CHR 0x0A]"

definition moved_msg :: "room \<Rightarrow> room \<Rightarrow> string" where
  "moved_msg old new =
     ''Moved ('' @ fmt_s (room_id old) @ '') --'' @ fmt_s (direction new) @ ''-> (''
       @ fmt_s (room_id new) @ '')'' @ [CHR 0x0A]"

definition install_room :: "room option \<Rightarrow> string option \<Rightarrow> proxy_state \<Rightarrow> proxy_state" where
  "install_room new msg st =
     (let st1 = st\<lparr>room := new\<rparr>
      in case msg of
           None \<Rightarrow> st1
         | Some m \<Rightarrow> st1\<lparr>obuf := buffer_append_str (obuf st1) m\<rparr>)"

definition close_mapper :: "extern \<Rightarrow> string \<Rightarrow> proxy_state \<Rightarrow> proxy_state" where
  "close_mapper e tmpstr st =
     (if strncmp_eq tmpstr ''BAT_MAPPER;;'' (strlen ''BAT_MAPPER;;'') then
        (if strcmp_eq tmpstr ''BAT_MAPPER;;REALM_MAP'' then
           install_room None (asprintf (exited_msg (room st))) st
         else
           (case room_new e (cstr tmpstr) of
              None \<Rightarrow> st
            | Some new \<Rightarrow>
                (case room st of
                   None \<Rightarrow> install_room (Some new) (asprintf (entered_msg new)) st
                 | Some old \<Rightarrow>
                     if \<not> strcmp_eq (area old) (area new)
                     then install_room (Some new) (asprintf (entered_msg new)) st
                     else install_room (Some new) (asprintf (moved_msg old new)) st)))
      else st)"

definition unknown_msg :: "int \<Rightarrow> string \<Rightarrow> string" where
  "unknown_msg c tmpstr = ''[unknown tag '' @ fmt_d c @ '']'' @ fmt_s tmpstr @ [CHR 0x0A]"

definition close_unknown :: "int \<Rightarrow> string \<Rightarrow> proxy_state \<Rightarrow> proxy_state" where
  "close_unknown c tmpstr st =
     (case asprintf (unknown_msg c tmpstr) of
        None \<Rightarrow> st
      | Some str \<Rightarrow> st\<lparr>obuf := buffer_append (obuf st) str (length str)\<rparr>)"

definition render :: "extern \<Rightarrow> int \<Rightarrow> string \<Rightarrow> proxy_state \<Rightarrow> proxy_state" where
  "render e c tmpstr st =
     (if c = 5 \<or> c = 6 then st
      else if c = 10 then close_message tmpstr st
      else if c = 11 then st
      else if c = 20 \<or> c = 21 then close_color e c tmpstr st
      else if c = 22 \<or> c = 23 \<or> c = 24 \<or> c = 25 \<or> c = 31
        then st\<lparr>obuf := buffer_append_buf (obuf st) (tmpbuf st)\<rparr>
      else if c = 40 \<or> c = 41 \<or> c = 42 \<or> c = 50 \<or> c = 51 \<or> c = 52 \<or> c = 53
              \<or> c = 54 \<or> c = 60 then st
      else if c = 64 then close_labelled ''[prots]'' st
      else if c = 70 then close_labelled ''[target]'' st
      else if c = 99 then close_mapper e tmpstr st
      else close_unknown c tmpstr st)"

subsection \<open>The callbacks\<close>

text \<open>
  \<^verbatim>\<open>on_close\<close> first asserts that the parser has a current tag. It then writes a NUL
  behind the scratch content and takes the length back, so that the region can be read
  as a C string, renders by code, and finally drops the argument and clears the scratch
  buffer.
\<close>

definition nul_terminate :: "buffer \<Rightarrow> buffer" where
  "nul_terminate b = (let b1 = buffer_append b [CHR 0x00] 1 in b1\<lparr>len := len b1 - 1\<rparr>)"

definition on_close :: "extern \<Rightarrow> bc_parser \<Rightarrow> proxy_state \<Rightarrow> error + proxy_state" where
  "on_close e parser st =
     (case tag parser of
        None \<Rightarrow> Inl AssertionFailed
      | Some t \<Rightarrow>
          (let st1 = st\<lparr>tmpbuf := nul_terminate (tmpbuf st)\<rparr>;
               tmpstr = data (tmpbuf st1);
               st2 = render e (code t) tmpstr st1;
               st3 = st2\<lparr>argstr := None\<rparr>
           in Inr (st3\<lparr>tmpbuf := buffer_clear (tmpbuf st3)\<rparr>)))"

definition on_open :: "extern \<Rightarrow> bc_parser \<Rightarrow> proxy_state \<Rightarrow> error + proxy_state" where
  "on_open e parser st =
     (if len (tmpbuf st) \<noteq> 0 \<or> argstr st \<noteq> None then on_close e parser st else Inr st)"

definition on_tag_text :: "proxy_state \<Rightarrow> string \<Rightarrow> nat \<Rightarrow> proxy_state" where
  "on_tag_text st buf n = st\<lparr>tmpbuf := buffer_append (tmpbuf st) buf n\<rparr>"

definition on_arg_end :: "proxy_state \<Rightarrow> proxy_state" where
  "on_arg_end st =
     (let st1 = (case malloc_copy (contents (tmpbuf st)) of
                   None \<Rightarrow> st\<lparr>argstr := None\<rparr>
                 | Some a \<Rightarrow> st\<lparr>argstr := Some a\<rparr>)
      in st1\<lparr>tmpbuf := buffer_clear (tmpbuf st1)\<rparr>)"

definition on_text :: "proxy_state \<Rightarrow> string \<Rightarrow> nat \<Rightarrow> proxy_state" where
  "on_text st buf n = st\<lparr>obuf := buffer_append (obuf st) buf n\<rparr>"

text \<open>The parser at the moment it reports the end of a tag with code \<open>c\<close>.\<close>

definition at_tag :: "int \<Rightarrow> bc_parser" where
  "at_tag c = \<lparr>tag = Some \<lparr>code = c\<rparr>\<rparr>"

section \<open>Observing a tag-closed event\<close>

text \<open>
  \<open>body\<close> is the accumulated content of the current tag. \<open>closes_with e c st out\<close>
  says that the tag-closed event for code \<open>c\<close> returns and appends exactly \<open>out\<close> to
  the output buffer; \<open>closes_clean\<close> that it returns with an empty scratch buffer and
  no argument; \<open>closes_room\<close> that it returns with the stored location \<open>r\<close>.
  \<open>pending\<close> is the test made by \<^verbatim>\<open>on_open\<close>, \<open>well_formed\<close> the buffer invariant
  that the length stays within the region.
\<close>

definition body :: "proxy_state \<Rightarrow> string" where
  "body st = contents (tmpbuf st)"

definition well_formed :: "buffer \<Rightarrow> bool" where
  "well_formed b \<longleftrightarrow> len b \<le> length (data b)"

definition pending :: "proxy_state \<Rightarrow> bool" where
  "pending st \<longleftrightarrow> len (tmpbuf st) \<noteq> 0 \<or> argstr st \<noteq> None"

definition closes_with :: "extern \<Rightarrow> int \<Rightarrow> proxy_state \<Rightarrow> string \<Rightarrow> bool" where
  "closes_with e c st out \<longleftrightarrow>
     (case on_close e (at_tag c) st of
        Inl err \<Rightarrow> False
      | Inr st' \<Rightarrow> contents (obuf st') = contents (obuf st) @ out)"

definition closes_clean :: "extern \<Rightarrow> int \<Rightarrow> proxy_state \<Rightarrow> bool" where
  "closes_clean e c st \<longleftrightarrow>
     (case on_close e (at_tag c) st of
        Inl err \<Rightarrow> False
      | Inr st' \<Rightarrow> len (tmpbuf st') = 0 \<and> argstr st' = None)"

definition closes_room :: "extern \<Rightarrow> int \<Rightarrow> proxy_state \<Rightarrow> room option \<Rightarrow> bool" where
  "closes_room e c st r \<longleftrightarrow>
     (case on_close e (at_tag c) st of
        Inl err \<Rightarrow> False
      | Inr st' \<Rightarrow> room st' = r)"

definition opens_with :: "extern \<Rightarrow> int \<Rightarrow> proxy_state \<Rightarrow> string \<Rightarrow> bool" where
  "opens_with e c st out \<longleftrightarrow>
     (case on_open e (at_tag c) st of
        Inl err \<Rightarrow> False
      | Inr st' \<Rightarrow> contents (obuf st') = contents (obuf st) @ out \<and> \<not> pending st')"

text \<open>The session at the start of the switch: the scratch region is NUL-terminated.\<close>

definition terminated :: "proxy_state \<Rightarrow> proxy_state" where
  "terminated st = st\<lparr>tmpbuf := nul_terminate (tmpbuf st)\<rparr>"

text \<open>
  The value that the colour branch hands to the palette function, and the reading of an
  argument that starts with six hexadecimal digits.
\<close>

definition color_rgb :: "extern \<Rightarrow> string \<Rightarrow> 32 word" where
  "color_rgb e a = (case sscanf_6x a of Some v \<Rightarrow> v | None \<Rightarrow> rgb_garbage e)"

definition is_hex6 :: "string \<Rightarrow> bool" where
  "is_hex6 a \<longleftrightarrow> 6 \<le> length a \<and> list_all (\<lambda>c. hexdigit c \<noteq> None) (take 6 a)"

definition hex6_value :: "string \<Rightarrow> nat" where
  "hex6_value a = hex_value (map (\<lambda>c. the (hexdigit c)) (take 6 a))"

subsection \<open>Sample sessions\<close>

text \<open>
  \<open>session0\<close> is the session as \<^verbatim>\<open>proxy_state_new\<close> leaves it: two empty buffers, no
  argument, no location. \<open>tag_events arg b\<close> delivers the events of one open tag with
  body \<open>b\<close>, after its argument if it has one. \<open>toy_extern\<close> is a palette that knows
  pure red (index 196) and answers 16 otherwise, with a decoder that knows three
  payloads.
\<close>

definition session0 :: proxy_state where
  "session0 = \<lparr>obuf = \<lparr>data = [], len = 0\<rparr>, tmpbuf = \<lparr>data = [], len = 0\<rparr>,
               argstr = None, room = None\<rparr>"

definition tag_events :: "string option \<Rightarrow> string \<Rightarrow> proxy_state \<Rightarrow> proxy_state" where
  "tag_events arg b st =
     on_tag_text
       (case arg of None \<Rightarrow> st | Some a \<Rightarrow> on_arg_end (on_tag_text st a (length a)))
       b (length b)"

definition room_r1 :: room where
  "room_r1 = \<lparr>room_id = ''r1'', area = ''arelium'', direction = ''north''\<rparr>"

definition room_r2 :: room where
  "room_r2 = \<lparr>room_id = ''r2'', area = ''arelium'', direction = ''east''\<rparr>"

definition room_k7 :: room where
  "room_k7 = \<lparr>room_id = ''k7'', area = ''shadowkeep'', direction = ''down''\<rparr>"

definition toy_rooms :: "(string \<times> room) list" where
  "toy_rooms =
     [(''BAT_MAPPER;;arelium;;r1;;north'', room_r1),
      (''BAT_MAPPER;;arelium;;r2;;east'', room_r2),
      (''BAT_MAPPER;;shadowkeep;;k7;;down'', room_k7)]"

definition toy_extern :: extern where
  "toy_extern = \<lparr>rgb_to_xterm = (\<lambda>rgb. if rgb = 0xFF0000 then 196 else 16),
                 room_new = map_of toy_rooms, rgb_garbage = 0\<rparr>"

definition other_extern :: extern where
  "other_extern = \<lparr>rgb_to_xterm = (\<lambda>rgb. if rgb = 0xFF0000 then 196 else 16),
                   room_new = (\<lambda>s. None), rgb_garbage = 0xABCDEF\<rparr>"

section \<open>Properties of the C-string view and of the buffer\<close>

lemma cstr_nul_free: "CHR 0x00 \<notin> set s \<Longrightarrow> cstr s = s"
  by (auto simp add: cstr_def takeWhile_eq_all_conv)

lemma nul_notin_cstr: "CHR 0x00 \<notin> set (cstr s)"
  unfolding cstr_def by (induction s) auto

lemma cstr_snoc_nul: "cstr (s @ [CHR 0x00]) = cstr s"
  by (induction s) (simp_all add: cstr_def)

lemma cstr_append_nul_free: "CHR 0x00 \<notin> set p \<Longrightarrow> cstr (p @ s) = p @ cstr s"
  by (simp add: cstr_def takeWhile_append)

lemma take_cstr_prefix:
  assumes "take n b = p" and "length p = n" and "CHR 0x00 \<notin> set p"
  shows "take n (cstr b) = p"
proof -
  have "b = p @ drop n b"
    using assms(1) by (metis append_take_drop_id)
  then have "cstr b = p @ cstr (drop n b)"
    using cstr_append_nul_free [OF assms(3)] by metis
  then show ?thesis using assms(2) by simp
qed

lemma digit_char_not_nul: "d < 10 \<Longrightarrow> CHR 0x00 \<noteq> digit_char d"
proof
  assume d: "d < 10" and "CHR 0x00 = digit_char d"
  then have "(of_char (char_of (48 + d)) :: nat) = of_char (CHR 0x00)"
    by (simp add: digit_char_def)
  with d show False by simp
qed

lemma nul_notin_dec_nat: "CHR 0x00 \<notin> set (dec_nat n)"
proof (induction n rule: dec_nat.induct)
  case (1 n)
  show ?case
  proof (cases "n < 10")
    case True
    then show ?thesis by (simp add: dec_nat.simps [of n] digit_char_not_nul)
  next
    case False
    with 1 show ?thesis
      by (simp add: dec_nat.simps [of n] digit_char_not_nul)
  qed
qed

lemma fmt_u_3: "fmt_u 3 = ''3''"
  by code_simp

lemma fmt_u_4: "fmt_u 4 = ''4''"
  by code_simp

lemma contents_buffer_append: "contents (buffer_append b src n) = contents b @ take n src"
  by (simp add: buffer_append_def contents_def)

lemma contents_buffer_append_str: "contents (buffer_append_str b s) = contents b @ cstr s"
  by (simp add: buffer_append_str_def contents_buffer_append strlen_def)

lemma contents_buffer_append_buf:
  "contents (buffer_append_buf dst src) = contents dst @ contents src"
  unfolding buffer_append_buf_def contents_buffer_append by (simp add: contents_def)

lemma data_nul_terminate: "data (nul_terminate b) = contents b @ [CHR 0x00]"
  by (simp add: nul_terminate_def buffer_append_def Let_def)

lemma len_nul_terminate: "len (nul_terminate b) = len b"
  by (simp add: nul_terminate_def buffer_append_def Let_def)

lemma contents_nul_terminate: "well_formed b \<Longrightarrow> contents (nul_terminate b) = contents b"
  by (simp add: contents_def data_nul_terminate len_nul_terminate well_formed_def)

subsection \<open>The conversion of six hexadecimal digits\<close>

lemma hexdigit_facts:
  assumes "hexdigit c \<noteq> None"
  shows "c \<noteq> CHR 0x00" "\<not> isspace c" "c \<noteq> CHR ''-''" "c \<noteq> CHR ''+''"
    "c \<noteq> CHR ''x''" "c \<noteq> CHR ''X''"
  using assms by (auto simp add: hexdigit_def isspace_def Let_def split: if_splits)

lemma hex_digits_all:
  "list_all (\<lambda>c. hexdigit c \<noteq> None) p \<Longrightarrow>
   hex_digits (length p) (p @ r) = map (\<lambda>c. the (hexdigit c)) p"
  by (induction p) auto

lemma sscanf_6x_hex6:
  assumes "is_hex6 a"
  shows "sscanf_6x a = Some (of_nat (hex6_value a))"
proof -
  obtain p r where a: "a = p @ r"
    and p: "length p = 6" "list_all (\<lambda>c. hexdigit c \<noteq> None) p"
    using assms unfolding is_hex6_def
    by (metis append_take_drop_id length_take min.absorb2)
  have nn: "CHR 0x00 \<notin> set p"
    using p(2) hexdigit_facts(1) by (auto simp add: list_all_iff)
  obtain c1 c2 p' where pc: "p = c1 # c2 # p'"
    using p(1) by (cases p; cases "tl p") auto
  have h1: "hexdigit c1 \<noteq> None" and h2: "hexdigit c2 \<noteq> None"
    using p(2) pc by auto
  have cs: "cstr a = p @ cstr r"
    by (simp add: a cstr_append_nul_free nn)
  have dw: "dropWhile isspace (p @ cstr r) = p @ cstr r"
    using hexdigit_facts(2) [OF h1] by (simp add: pc)
  have sg: "scan_sign (p @ cstr r) = (False, 6, p @ cstr r)"
    using hexdigit_facts(3,4) [OF h1] by (simp add: scan_sign_def pc)
  have pf: "scan_prefix 6 (p @ cstr r) = (False, 6, p @ cstr r)"
    using hexdigit_facts(5,6) [OF h2] by (simp add: scan_prefix_def pc)
  have hd: "hex_digits 6 (p @ cstr r) = map (\<lambda>c. the (hexdigit c)) p"
    using hex_digits_all [OF p(2), of "cstr r"] p(1) by simp
  have tk: "take 6 a = p" by (simp add: a p(1))
  have ne: "p \<noteq> []" using p(1) by auto
  show ?thesis
    by (simp add: sscanf_6x_def cs dw sg pf hd hex6_value_def tk ne)
qed

section \<open>The tag-closed event, branch by branch\<close>

lemma on_close_at_tag:
  "on_close e (at_tag c) st =
     Inr ((render e c (body st @ [CHR 0x00]) (terminated st))
            \<lparr>argstr := None,
             tmpbuf := buffer_clear (tmpbuf (render e c (body st @ [CHR 0x00]) (terminated st)))\<rparr>)"
  by (simp add: on_close_def at_tag_def Let_def terminated_def body_def data_nul_terminate)

lemma closes_with_render:
  "closes_with e c st out \<longleftrightarrow>
     contents (obuf (render e c (body st @ [CHR 0x00]) (terminated st))) = contents (obuf st) @ out"
  by (simp add: closes_with_def on_close_at_tag)

lemma closes_room_render:
  "closes_room e c st r \<longleftrightarrow> room (render e c (body st @ [CHR 0x00]) (terminated st)) = r"
  by (simp add: closes_room_def on_close_at_tag)

lemma closes_clean_always: "closes_clean e c st"
  by (simp add: closes_clean_def on_close_at_tag buffer_clear_def)

lemma terminated_simps:
  "obuf (terminated st) = obuf st" "argstr (terminated st) = argstr st"
  "room (terminated st) = room st"
  by (simp_all add: terminated_def)

lemma body_terminated:
  "well_formed (tmpbuf st) \<Longrightarrow> contents (tmpbuf (terminated st)) = body st"
  by (simp add: terminated_def contents_nul_terminate body_def)

subsection \<open>Typed message, colour and unknown codes\<close>

lemma typed_message_bytes:
  assumes "well_formed (tmpbuf st)"
  shows "closes_with e 10 st
     (case argstr st of
        None \<Rightarrow> body st
      | Some a \<Rightarrow>
          if cstr a = ''spec_prompt'' then body st @ [CHR 0xFF, CHR 0xF9]
          else if cstr a = ''spec_map''
            then (if cstr (body st) = ''NoMapSupport'' then [] else body st)
          else cstr a @ '': '' @ body st)"
  using assms
  by (simp add: closes_with_render render_def close_message_def terminated_simps body_terminated
      contents_buffer_append_buf contents_buffer_append_str strcmp_eq_def cstr_snoc_nul Let_def
      cstr_nul_free split: option.splits)

lemma cstr_color_escape: "cstr (color_escape fg idx t) = color_escape fg idx t"
  by (rule cstr_nul_free)
    (simp add: color_escape_def fmt_u_def fmt_s_def nul_notin_dec_nat nul_notin_cstr)

lemma color_bytes:
  assumes "c = 20 \<or> c = 21" and "argstr st = Some a"
  shows "closes_with e c st
     ([CHR 0x1B] @ ''['' @ (if c = 20 then ''3'' else ''4'') @ ''8;5;''
        @ fmt_u (rgb_to_xterm e (color_rgb e a)) @ ''m'' @ cstr (body st)
        @ [CHR 0x1B] @ ''[0m'')"
proof -
  let ?t = "body st @ [CHR 0x00]"
  have r: "render e c ?t (terminated st) = close_color e c ?t (terminated st)"
    using assms(1) by (auto simp add: render_def)
  have "contents (obuf (close_color e c ?t (terminated st))) =
          contents (obuf st) @ color_escape (c = 20) (rgb_to_xterm e (color_rgb e a)) ?t"
    using assms(2)
    by (simp add: close_color_def terminated_simps asprintf_def Let_def color_rgb_def
        contents_buffer_append_str cstr_color_escape)
  moreover have "color_escape (c = 20) (rgb_to_xterm e (color_rgb e a)) ?t =
      [CHR 0x1B] @ ''['' @ (if c = 20 then ''3'' else ''4'') @ ''8;5;''
        @ fmt_u (rgb_to_xterm e (color_rgb e a)) @ ''m'' @ cstr (body st)
        @ [CHR 0x1B] @ ''[0m''"
    by (simp add: color_escape_def fmt_u_3 fmt_u_4 fmt_s_def cstr_snoc_nul)
  ultimately show ?thesis
    by (simp only: closes_with_render r)
qed

lemma color_silent:
  assumes "c = 20 \<or> c = 21" and "argstr st = None"
  shows "closes_with e c st []"
  using assms by (auto simp add: closes_with_render render_def close_color_def terminated_simps)

lemma render_unknown:
  "c \<notin> set known_codes \<Longrightarrow> render e c t st = close_unknown c t st"
  by (simp add: known_codes_def render_def)

lemma unknown_bytes:
  assumes "c \<notin> set known_codes"
  shows "closes_with e c st (''[unknown tag '' @ fmt_d c @ '']'' @ cstr (body st) @ [CHR 0x0A])"
  using assms
  by (simp add: closes_with_render render_unknown close_unknown_def asprintf_def unknown_msg_def
      fmt_s_def cstr_snoc_nul contents_buffer_append terminated_simps)

lemma silent_bytes:
  assumes "c \<in> set [5, 6, 11, 40, 41, 42, 50, 51, 52, 53, 54, 60]"
  shows "closes_with e c st []"
  using assms by (auto simp add: closes_with_render render_def terminated_simps)

lemma render_frame:
  assumes "c \<noteq> 99"
    and "well_formed (tmpbuf st1)" and "well_formed (tmpbuf st2)"
    and "argstr st1 = argstr st2" and "body st1 = body st2"
    and "rgb_to_xterm e1 = rgb_to_xterm e2"
    and "c = 20 \<or> c = 21 \<longrightarrow> (\<forall>a. argstr st1 = Some a \<longrightarrow> sscanf_6x a \<noteq> None)"
  shows "\<exists>out.
      contents (obuf (render e1 c (body st1 @ [CHR 0x00]) (terminated st1)))
        = contents (obuf st1) @ out
    \<and> contents (obuf (render e2 c (body st2 @ [CHR 0x00]) (terminated st2)))
        = contents (obuf st2) @ out"
  using assms
  by (auto simp add: render_def close_message_def close_color_def close_labelled_def
      close_unknown_def asprintf_def Let_def terminated_simps body_terminated
      contents_buffer_append contents_buffer_append_str contents_buffer_append_buf
      split: option.splits)

subsection \<open>The mapper code\<close>

lemma strlen_mapper_prefix: "strlen ''BAT_MAPPER;;'' = 12"
  by (simp add: strlen_def cstr_def)

lemma mapper_prefix_tmpstr:
  assumes "take 12 (body st) = ''BAT_MAPPER;;''"
  shows "strncmp_eq (body st @ [CHR 0x00]) ''BAT_MAPPER;;'' (strlen ''BAT_MAPPER;;'')"
proof -
  have "take 12 (cstr (body st)) = ''BAT_MAPPER;;''"
    by (rule take_cstr_prefix [OF assms]) simp_all
  moreover have "take 12 (cstr ''BAT_MAPPER;;'') = ''BAT_MAPPER;;''"
    by (simp add: cstr_def)
  ultimately show ?thesis
    by (simp only: strncmp_eq_def strlen_mapper_prefix cstr_snoc_nul)
qed

lemma cstr_exited_msg: "cstr (exited_msg r) = exited_msg r"
  by (rule cstr_nul_free) (simp add: exited_msg_def fmt_s_def nul_notin_cstr)

lemma cstr_entered_msg: "cstr (entered_msg r) = entered_msg r"
  by (rule cstr_nul_free) (simp add: entered_msg_def fmt_s_def nul_notin_cstr)

lemma cstr_moved_msg: "cstr (moved_msg r r') = moved_msg r r'"
  by (rule cstr_nul_free) (simp add: moved_msg_def fmt_s_def nul_notin_cstr)

lemma render_mapper: "render e 99 t st = close_mapper e t st"
  by (simp add: render_def)

lemma close_mapper_sentinel:
  assumes "take 12 (body st) = ''BAT_MAPPER;;''"
    and "cstr (body st) = ''BAT_MAPPER;;REALM_MAP''"
  shows "close_mapper e (body st @ [CHR 0x00]) (terminated st) =
           install_room None (Some (exited_msg (room st))) (terminated st)"
  using mapper_prefix_tmpstr [OF assms(1)] assms(2)
  by (simp add: close_mapper_def strcmp_eq_def cstr_snoc_nul cstr_nul_free asprintf_def
      terminated_simps)

lemma close_mapper_decode:
  assumes "take 12 (body st) = ''BAT_MAPPER;;''"
    and "cstr (body st) \<noteq> ''BAT_MAPPER;;REALM_MAP''"
  shows "close_mapper e (body st @ [CHR 0x00]) (terminated st) =
     (case room_new e (cstr (body st)) of
        None \<Rightarrow> terminated st
      | Some new \<Rightarrow>
          install_room (Some new)
            (Some (case room st of
                     None \<Rightarrow> entered_msg new
                   | Some old \<Rightarrow>
                       if cstr (area old) = cstr (area new) then moved_msg old new
                       else entered_msg new))
            (terminated st))"
  using mapper_prefix_tmpstr [OF assms(1)] assms(2)
  by (simp add: close_mapper_def strcmp_eq_def cstr_snoc_nul cstr_nul_free asprintf_def
      terminated_simps split: option.splits)

lemma install_room_obuf:
  "contents (obuf (install_room new (Some m) st)) = contents (obuf st) @ cstr m"
  by (simp add: install_room_def Let_def contents_buffer_append_str)

lemma install_room_room: "room (install_room new msg st) = new"
  by (simp add: install_room_def Let_def split: option.splits)

lemma exited_bytes:
  assumes "take 12 (body st) = ''BAT_MAPPER;;''"
    and "cstr (body st) = ''BAT_MAPPER;;REALM_MAP''"
  shows "closes_with e 99 st
     (''Exited to map from ''
        @ (case room st of Some old \<Rightarrow> cstr (area old) | None \<Rightarrow> ''(unknown)'')
        @ ''.'' @ [CHR 0x0A])"
proof -
  have "closes_with e 99 st (exited_msg (room st))"
    by (simp add: closes_with_render render_mapper close_mapper_sentinel [OF assms]
        install_room_obuf cstr_exited_msg terminated_simps)
  moreover have "exited_msg (room st) =
      ''Exited to map from ''
        @ (case room st of Some old \<Rightarrow> cstr (area old) | None \<Rightarrow> ''(unknown)'')
        @ ''.'' @ [CHR 0x0A]"
    by (simp add: exited_msg_def fmt_s_def cstr_nul_free split: option.splits)
  ultimately show ?thesis by simp
qed

lemma decoded_bytes:
  assumes "take 12 (body st) = ''BAT_MAPPER;;''"
    and "cstr (body st) \<noteq> ''BAT_MAPPER;;REALM_MAP''"
    and "room_new e (cstr (body st)) = Some new"
  shows "closes_with e 99 st
     (case room st of
        None \<Rightarrow> entered_msg new
      | Some old \<Rightarrow>
          if cstr (area old) = cstr (area new) then moved_msg old new else entered_msg new)"
  by (simp add: closes_with_render render_mapper close_mapper_decode [OF assms(1,2)] assms(3)
      install_room_obuf cstr_entered_msg cstr_moved_msg terminated_simps split: option.splits)

lemma decoded_room:
  assumes "take 12 (body st) = ''BAT_MAPPER;;''"
    and "cstr (body st) \<noteq> ''BAT_MAPPER;;REALM_MAP''"
  shows "room_new e (cstr (body st)) = Some new \<Longrightarrow> closes_room e 99 st (Some new)"
    and "room_new e (cstr (body st)) = None \<Longrightarrow>
           closes_room e 99 st (room st) \<and> closes_with e 99 st []"
  by (simp_all add: closes_room_render closes_with_render render_mapper
      close_mapper_decode [OF assms] install_room_room terminated_simps)

subsection \<open>The tag-opened event\<close>

lemma on_open_pending:
  assumes "pending st"
  shows "on_open e p st = on_close e p st"
  using assms by (simp add: on_open_def pending_def)

lemma on_open_clean:
  assumes "\<not> pending st"
  shows "on_open e p st = Inr st"
  using assms by (simp add: on_open_def pending_def)

lemma on_close_not_pending:
  "on_close e (at_tag c) st = Inr st' \<Longrightarrow> \<not> pending st'"
  by (auto simp add: on_close_at_tag pending_def buffer_clear_def)

subsection \<open>The callbacks keep the buffer invariant\<close>

text \<open>
  The hypothesis \<open>well_formed\<close> of some of the claims is an invariant of the session:
  it holds of \<open>session0\<close> and every callback keeps it.
\<close>

lemma well_formed_buffer_append:
  "well_formed b \<Longrightarrow> n \<le> length src \<Longrightarrow> well_formed (buffer_append b src n)"
  by (simp add: well_formed_def buffer_append_def contents_def)

lemma well_formed_buffer_append_str: "well_formed b \<Longrightarrow> well_formed (buffer_append_str b s)"
  by (simp add: buffer_append_str_def strlen_def well_formed_buffer_append)

lemma well_formed_buffer_append_buf:
  "well_formed dst \<Longrightarrow> well_formed src \<Longrightarrow> well_formed (buffer_append_buf dst src)"
  unfolding buffer_append_buf_def
  by (rule well_formed_buffer_append) (simp_all add: well_formed_def)

lemma well_formed_buffer_clear: "well_formed (buffer_clear b)"
  by (simp add: well_formed_def buffer_clear_def)

lemma well_formed_nul_terminate: "well_formed b \<Longrightarrow> well_formed (nul_terminate b)"
  by (simp add: well_formed_def data_nul_terminate len_nul_terminate contents_def)

lemma render_well_formed:
  assumes "well_formed (obuf st)" and "well_formed (tmpbuf st)"
  shows "well_formed (obuf (render e c t st))"
  using assms
  by (auto simp add: render_def close_message_def close_color_def close_labelled_def
      close_mapper_def close_unknown_def install_room_def asprintf_def Let_def
      well_formed_buffer_append well_formed_buffer_append_str well_formed_buffer_append_buf
      split: option.splits)

lemma on_close_well_formed:
  assumes "well_formed (obuf st)" and "well_formed (tmpbuf st)"
    and "on_close e (at_tag c) st = Inr st'"
  shows "well_formed (obuf st') \<and> well_formed (tmpbuf st')"
  using assms(3) render_well_formed [of "terminated st" e c "body st @ [CHR 0x00]"] assms(1,2)
  by (auto simp add: on_close_at_tag well_formed_buffer_clear terminated_simps terminated_def
      well_formed_nul_terminate)

lemma on_tag_text_well_formed:
  assumes "well_formed (tmpbuf st)" and "n \<le> length buf"
  shows "well_formed (tmpbuf (on_tag_text st buf n))"
  using assms by (simp add: on_tag_text_def well_formed_buffer_append)

lemma on_arg_end_well_formed: "well_formed (tmpbuf (on_arg_end st))"
  by (simp add: on_arg_end_def malloc_copy_def Let_def well_formed_buffer_clear)

lemma session0_well_formed: "well_formed (obuf session0) \<and> well_formed (tmpbuf session0)"
  by (simp add: session0_def well_formed_def)

subsection \<open>Evaluations used by the sample sessions\<close>

lemma closes_with_unique:
  "closes_with e c st out \<Longrightarrow> closes_with e c st out' \<longleftrightarrow> out' = out"
  by (auto simp add: closes_with_def split: sum.splits)

lemma hex6_value_red: "hex6_value ''ff0000'' = 16711680"
  by (simp add: hex6_value_def hex_value_def hexdigit_def)

lemma is_hex6_red: "is_hex6 ''ff0000''"
  by code_simp

lemma color_rgb_red: "color_rgb e ''ff0000'' = 0xFF0000"
  using sscanf_6x_hex6 [OF is_hex6_red] by (simp add: color_rgb_def hex6_value_red)

lemma fmt_u_toy:
  "fmt_u (rgb_to_xterm toy_extern (0xFF0000 :: 32 word)) = ''196''"
  "fmt_u (rgb_to_xterm toy_extern (0xFFF :: 32 word)) = ''16''"
  by code_simp+

lemma sscanf_6x_red: "sscanf_6x ''ff0000'' = Some 0xFF0000"
  using sscanf_6x_hex6 [OF is_hex6_red] by (simp add: hex6_value_red)

lemma sscanf_6x_bare_prefix: "sscanf_6x ''0xzz'' = Some 0" "sscanf_6x ''-0x'' = Some 0"
  by code_simp+

lemma sscanf_6x_no_item: "sscanf_6x ''zzzzzz'' = None" "sscanf_6x [] = None"
  by code_simp+

lemma sscanf_6x_short: "sscanf_6x ''fff'' = Some 0xFFF"
proof -
  have d: "hex_digits 6 ''fff'' = [15, 15, 15]"
    by code_simp
  show ?thesis
    by (simp add: sscanf_6x_def cstr_def isspace_def scan_sign_def scan_prefix_def d
        hex_value_def)
qed

section \<open>The claims\<close>

text \<open>
  Claim C1. Typed message tag (code 10), tag closed. The argument is a C string, compared
  by \<^verbatim>\<open>strcmp\<close>. If it is \<^verbatim>\<open>spec_prompt\<close>, the output is the body followed by the two
  bytes 0xFF 0xF9. If it is \<^verbatim>\<open>spec_map\<close> and the body is \<^verbatim>\<open>NoMapSupport\<close>, nothing is
  appended. For any other argument the output is the argument, then a colon and a space,
  then the body. Without an argument the output is the body as it is.
\<close>

theorem typed_message_render:
  assumes "well_formed (tmpbuf st)"
  shows
    "(argstr st = Some a \<longrightarrow> cstr a = ''spec_prompt'' \<longrightarrow>
        closes_with e 10 st (body st @ [CHR 0xFF, CHR 0xF9]))
   \<and> (argstr st = Some a \<longrightarrow> cstr a = ''spec_map'' \<longrightarrow> body st = ''NoMapSupport'' \<longrightarrow>
        closes_with e 10 st [])
   \<and> (argstr st = Some a \<longrightarrow> cstr a \<noteq> ''spec_prompt'' \<longrightarrow> cstr a \<noteq> ''spec_map'' \<longrightarrow>
        closes_with e 10 st (cstr a @ '': '' @ body st))
   \<and> (argstr st = None \<longrightarrow> closes_with e 10 st (body st))"
  using typed_message_bytes [OF assms, of e] by (auto simp add: cstr_nul_free)

theorem typed_message_render_witness:
  "closes_with toy_extern 10 (tag_events (Some ''spec_prompt'') ''> '' session0)
     [CHR ''>'', CHR '' '', CHR 0xFF, CHR 0xF9]
   \<and> closes_with toy_extern 10 (tag_events (Some ''spec_map'') ''NoMapSupport'' session0) []
   \<and> closes_with toy_extern 10 (tag_events (Some ''chan_sky'') ''hello'' session0)
       ''chan_sky: hello''
   \<and> closes_with toy_extern 10 (tag_events None ''hello'' session0) ''hello''"
proof -
  let ?s1 = "tag_events (Some ''spec_prompt'') ''> '' session0"
  let ?s2 = "tag_events (Some ''spec_map'') ''NoMapSupport'' session0"
  let ?s3 = "tag_events (Some ''chan_sky'') ''hello'' session0"
  let ?s4 = "tag_events None ''hello'' session0"
  have w: "well_formed (tmpbuf ?s1)" "well_formed (tmpbuf ?s2)" "well_formed (tmpbuf ?s3)"
    "well_formed (tmpbuf ?s4)"
    by code_simp+
  have a: "argstr ?s1 = Some ''spec_prompt''" "argstr ?s2 = Some ''spec_map''"
    "argstr ?s3 = Some ''chan_sky''" "argstr ?s4 = None"
    by code_simp+
  have b: "body ?s1 = ''> ''" "body ?s2 = ''NoMapSupport''" "body ?s3 = ''hello''"
    "body ?s4 = ''hello''"
    by code_simp+
  have c: "cstr ''spec_prompt'' = ''spec_prompt''" "cstr ''spec_map'' = ''spec_map''"
    "cstr ''chan_sky'' = ''chan_sky''"
    by code_simp+
  have "closes_with toy_extern 10 ?s1 [CHR ''>'', CHR '' '', CHR 0xFF, CHR 0xF9]"
    using typed_message_render [OF w(1), of "''spec_prompt''" toy_extern] a(1) b(1) c(1)
    by simp
  moreover have "closes_with toy_extern 10 ?s2 []"
    using typed_message_render [OF w(2), of "''spec_map''" toy_extern] a(2) b(2) c(2)
    by simp
  moreover have "closes_with toy_extern 10 ?s3 ''chan_sky: hello''"
    using typed_message_render [OF w(3), of "''chan_sky''" toy_extern] a(3) b(3) c(3)
    by simp
  moreover have "closes_with toy_extern 10 ?s4 ''hello''"
    using typed_message_render [OF w(4), of _ toy_extern] a(4) b(4)
    by simp
  ultimately show ?thesis by simp
qed

text \<open>
  Claim C2. Mapper tag (code 99) whose body starts with \<^verbatim>\<open>BAT_MAPPER;;\<close>; strings are
  compared by \<^verbatim>\<open>strcmp\<close>. If the body is \<^verbatim>\<open>BAT_MAPPER;;REALM_MAP\<close>, the output is
  \<^verbatim>\<open>Exited to map from X.\<close> and a newline, where X is the area of the stored location, or
  \<^verbatim>\<open>(unknown)\<close> when none is stored. Otherwise, when the decoder returns a location:
  with no stored location, or one in another area, the output is
  \<^verbatim>\<open>Entered area X with direction Y\<close>; with a stored location in the same area it is
  \<^verbatim>\<open>Moved (old-id) --direction-> (new-id)\<close>; each ends in a newline.
\<close>

theorem mapper_render:
  assumes "take 12 (body st) = ''BAT_MAPPER;;''"
  shows
    "(cstr (body st) = ''BAT_MAPPER;;REALM_MAP'' \<longrightarrow>
        closes_with e 99 st
          (''Exited to map from ''
             @ (case room st of Some old \<Rightarrow> cstr (area old) | None \<Rightarrow> ''(unknown)'')
             @ ''.'' @ [CHR 0x0A]))
   \<and> (cstr (body st) \<noteq> ''BAT_MAPPER;;REALM_MAP'' \<longrightarrow>
      room_new e (cstr (body st)) = Some new \<longrightarrow>
        (room st = None \<longrightarrow>
           closes_with e 99 st
             (''Entered area '' @ cstr (area new) @ '' with direction ''
                @ cstr (direction new) @ [CHR 0x0A]))
      \<and> (room st = Some old \<longrightarrow> cstr (area old) \<noteq> cstr (area new) \<longrightarrow>
           closes_with e 99 st
             (''Entered area '' @ cstr (area new) @ '' with direction ''
                @ cstr (direction new) @ [CHR 0x0A]))
      \<and> (room st = Some old \<longrightarrow> cstr (area old) = cstr (area new) \<longrightarrow>
           closes_with e 99 st
             (''Moved ('' @ cstr (room_id old) @ '') --'' @ cstr (direction new) @ ''-> (''
                @ cstr (room_id new) @ '')'' @ [CHR 0x0A])))"
proof (intro conjI impI)
  assume "cstr (body st) = ''BAT_MAPPER;;REALM_MAP''"
  then show "closes_with e 99 st
      (''Exited to map from ''
         @ (case room st of Some old \<Rightarrow> cstr (area old) | None \<Rightarrow> ''(unknown)'')
         @ ''.'' @ [CHR 0x0A])"
    by (rule exited_bytes [OF assms])
next
  assume d: "cstr (body st) \<noteq> ''BAT_MAPPER;;REALM_MAP''"
    "room_new e (cstr (body st)) = Some new"
  note b = decoded_bytes [OF assms d]
  {
    assume "room st = None"
    with b show "closes_with e 99 st
        (''Entered area '' @ cstr (area new) @ '' with direction ''
           @ cstr (direction new) @ [CHR 0x0A])"
      by (simp add: entered_msg_def fmt_s_def)
  next
    assume "room st = Some old" "cstr (area old) \<noteq> cstr (area new)"
    with b show "closes_with e 99 st
        (''Entered area '' @ cstr (area new) @ '' with direction ''
           @ cstr (direction new) @ [CHR 0x0A])"
      by (simp add: entered_msg_def fmt_s_def)
  next
    assume "room st = Some old" "cstr (area old) = cstr (area new)"
    with b show "closes_with e 99 st
        (''Moved ('' @ cstr (room_id old) @ '') --'' @ cstr (direction new) @ ''-> (''
           @ cstr (room_id new) @ '')'' @ [CHR 0x0A])"
      by (simp add: moved_msg_def fmt_s_def)
  }
qed

theorem mapper_render_witness:
  "closes_with toy_extern 99 (tag_events None ''BAT_MAPPER;;arelium;;r1;;north'' session0)
     (''Entered area arelium with direction north'' @ [CHR 0x0A])
   \<and> closes_with toy_extern 99
       (tag_events None ''BAT_MAPPER;;arelium;;r2;;east'' (session0\<lparr>room := Some room_r1\<rparr>))
       (''Moved (r1) --east-> (r2)'' @ [CHR 0x0A])
   \<and> closes_with toy_extern 99
       (tag_events None ''BAT_MAPPER;;shadowkeep;;k7;;down'' (session0\<lparr>room := Some room_r2\<rparr>))
       (''Entered area shadowkeep with direction down'' @ [CHR 0x0A])
   \<and> closes_with toy_extern 99
       (tag_events None ''BAT_MAPPER;;REALM_MAP'' (session0\<lparr>room := Some room_k7\<rparr>))
       (''Exited to map from shadowkeep.'' @ [CHR 0x0A])
   \<and> closes_with toy_extern 99 (tag_events None ''BAT_MAPPER;;REALM_MAP'' session0)
       (''Exited to map from (unknown).'' @ [CHR 0x0A])"
proof -
  let ?s1 = "tag_events None ''BAT_MAPPER;;arelium;;r1;;north'' session0"
  let ?s2 = "tag_events None ''BAT_MAPPER;;arelium;;r2;;east'' (session0\<lparr>room := Some room_r1\<rparr>)"
  let ?s3 = "tag_events None ''BAT_MAPPER;;shadowkeep;;k7;;down''
      (session0\<lparr>room := Some room_r2\<rparr>)"
  let ?s4 = "tag_events None ''BAT_MAPPER;;REALM_MAP'' (session0\<lparr>room := Some room_k7\<rparr>)"
  let ?s5 = "tag_events None ''BAT_MAPPER;;REALM_MAP'' session0"
  have p: "take 12 (body ?s1) = ''BAT_MAPPER;;''" "take 12 (body ?s2) = ''BAT_MAPPER;;''"
    "take 12 (body ?s3) = ''BAT_MAPPER;;''" "take 12 (body ?s4) = ''BAT_MAPPER;;''"
    "take 12 (body ?s5) = ''BAT_MAPPER;;''"
    by code_simp+
  have c: "cstr (body ?s1) = ''BAT_MAPPER;;arelium;;r1;;north''"
    "cstr (body ?s2) = ''BAT_MAPPER;;arelium;;r2;;east''"
    "cstr (body ?s3) = ''BAT_MAPPER;;shadowkeep;;k7;;down''"
    "cstr (body ?s4) = ''BAT_MAPPER;;REALM_MAP''"
    "cstr (body ?s5) = ''BAT_MAPPER;;REALM_MAP''"
    by code_simp+
  have n: "room_new toy_extern ''BAT_MAPPER;;arelium;;r1;;north'' = Some room_r1"
    "room_new toy_extern ''BAT_MAPPER;;arelium;;r2;;east'' = Some room_r2"
    "room_new toy_extern ''BAT_MAPPER;;shadowkeep;;k7;;down'' = Some room_k7"
    by code_simp+
  have r: "room ?s1 = None" "room ?s2 = Some room_r1" "room ?s3 = Some room_r2"
    "room ?s4 = Some room_k7" "room ?s5 = None"
    by code_simp+
  have f: "cstr (area room_r1) = ''arelium''" "cstr (area room_r2) = ''arelium''"
    "cstr (area room_k7) = ''shadowkeep''" "cstr (direction room_r1) = ''north''"
    "cstr (direction room_r2) = ''east''" "cstr (direction room_k7) = ''down''"
    "cstr (room_id room_r1) = ''r1''" "cstr (room_id room_r2) = ''r2''"
    "cstr (room_id room_k7) = ''k7''"
    by code_simp+
  have "closes_with toy_extern 99 ?s1
      (''Entered area arelium with direction north'' @ [CHR 0x0A])"
    using mapper_render [OF p(1), of toy_extern room_r1] by (simp add: c n r f)
  moreover have "closes_with toy_extern 99 ?s2 (''Moved (r1) --east-> (r2)'' @ [CHR 0x0A])"
    using mapper_render [OF p(2), of toy_extern room_r2 room_r1] by (simp add: c n r f)
  moreover have "closes_with toy_extern 99 ?s3
      (''Entered area shadowkeep with direction down'' @ [CHR 0x0A])"
    using mapper_render [OF p(3), of toy_extern room_k7 room_r2] by (simp add: c n r f)
  moreover have "closes_with toy_extern 99 ?s4 (''Exited to map from shadowkeep.'' @ [CHR 0x0A])"
    using mapper_render [OF p(4), of toy_extern] by (simp add: c r f)
  moreover have "closes_with toy_extern 99 ?s5 (''Exited to map from (unknown).'' @ [CHR 0x0A])"
    using mapper_render [OF p(5), of toy_extern] by (simp add: c r)
  ultimately show ?thesis by simp
qed

text \<open>
  Claim C3. A mapper tag (code 99) hands its payload to the decoder when the body starts
  with \<^verbatim>\<open>BAT_MAPPER;;\<close> and is not \<^verbatim>\<open>BAT_MAPPER;;REALM_MAP\<close>. If the decoder returns a
  location, the session afterwards stores that location in place of the previous one. If
  the decoder fails, the stored location is the one from before and nothing is appended
  to the output.
\<close>

theorem mapper_room_update:
  assumes "take 12 (body st) = ''BAT_MAPPER;;''"
    and "cstr (body st) \<noteq> ''BAT_MAPPER;;REALM_MAP''"
  shows
    "(room_new e (cstr (body st)) = Some new \<longrightarrow> closes_room e 99 st (Some new))
   \<and> (room_new e (cstr (body st)) = None \<longrightarrow>
        closes_room e 99 st (room st) \<and> closes_with e 99 st [])"
  using decoded_room [OF assms] by blast

theorem mapper_room_update_witness:
  "closes_room toy_extern 99
     (tag_events None ''BAT_MAPPER;;arelium;;r2;;east'' (session0\<lparr>room := Some room_k7\<rparr>))
     (Some room_r2)
   \<and> closes_room toy_extern 99
       (tag_events None ''BAT_MAPPER;;garbled'' (session0\<lparr>room := Some room_k7\<rparr>))
       (Some room_k7)
   \<and> closes_with toy_extern 99
       (tag_events None ''BAT_MAPPER;;garbled'' (session0\<lparr>room := Some room_k7\<rparr>)) []"
proof -
  let ?s1 = "tag_events None ''BAT_MAPPER;;arelium;;r2;;east'' (session0\<lparr>room := Some room_k7\<rparr>)"
  let ?s2 = "tag_events None ''BAT_MAPPER;;garbled'' (session0\<lparr>room := Some room_k7\<rparr>)"
  have p: "take 12 (body ?s1) = ''BAT_MAPPER;;''" "take 12 (body ?s2) = ''BAT_MAPPER;;''"
    by code_simp+
  have c: "cstr (body ?s1) \<noteq> ''BAT_MAPPER;;REALM_MAP''"
    "cstr (body ?s2) \<noteq> ''BAT_MAPPER;;REALM_MAP''"
    by code_simp+
  have n: "room_new toy_extern (cstr (body ?s1)) = Some room_r2"
    "room_new toy_extern (cstr (body ?s2)) = None"
    by code_simp+
  have r: "room ?s2 = Some room_k7" by code_simp
  have "closes_room toy_extern 99 ?s1 (Some room_r2)"
    using mapper_room_update [OF p(1) c(1), of toy_extern room_r2] n(1) by simp
  moreover have "closes_room toy_extern 99 ?s2 (Some room_k7) \<and> closes_with toy_extern 99 ?s2 []"
    using mapper_room_update [OF p(2) c(2), of toy_extern] n(2) r by simp
  ultimately show ?thesis by simp
qed

text \<open>
  Claim C4, as amended. Colour tags (codes 20 and 21), tag closed, with an argument
  string from which \<^verbatim>\<open>%6x\<close> converts a value; an argument that starts with six
  hexadecimal digits converts to their value as RGB. The palette function maps the
  converted value to an index, and the output
  is ESC \<^verbatim>\<open>[38;5;\<close>index\<^verbatim>\<open>m\<close> for code 20, ESC \<^verbatim>\<open>[48;5;\<close>index\<^verbatim>\<open>m\<close> for code 21,
  then the body up to its first NUL byte (the whole body when it holds none), then the
  reset ESC \<^verbatim>\<open>[0m\<close>. Nothing is stated for an argument from which nothing converts.
\<close>

theorem color_render:
  assumes "c = 20 \<or> c = 21" and "argstr st = Some a" and "sscanf_6x a = Some rgb"
  shows
    "closes_with e c st
       ([CHR 0x1B] @ ''['' @ (if c = 20 then ''3'' else ''4'') @ ''8;5;''
          @ fmt_u (rgb_to_xterm e rgb) @ ''m'' @ cstr (body st)
          @ [CHR 0x1B] @ ''[0m'')
     \<and> (is_hex6 a \<longrightarrow> rgb = of_nat (hex6_value a))"
proof -
  have "color_rgb e a = rgb"
    using assms(3) by (simp add: color_rgb_def)
  moreover have "is_hex6 a \<longrightarrow> rgb = of_nat (hex6_value a)"
    using assms(3) sscanf_6x_hex6 [of a] by auto
  ultimately show ?thesis
    using color_bytes [OF assms(1,2), of e] by simp
qed

theorem color_render_witness:
  "closes_with toy_extern 20 (tag_events (Some ''ff0000'') ''blood'' session0)
     ([CHR 0x1B] @ ''[38;5;196mblood'' @ [CHR 0x1B] @ ''[0m'')
   \<and> (0xFF0000 :: 32 word) = of_nat (hex6_value ''ff0000'')
   \<and> closes_with toy_extern 21 (tag_events (Some ''fff'') ''blood'' session0)
       ([CHR 0x1B] @ ''[48;5;16mblood'' @ [CHR 0x1B] @ ''[0m'')"
proof -
  let ?s1 = "tag_events (Some ''ff0000'') ''blood'' session0"
  let ?s2 = "tag_events (Some ''fff'') ''blood'' session0"
  have a: "argstr ?s1 = Some ''ff0000''" "argstr ?s2 = Some ''fff''"
    by code_simp+
  have b: "cstr (body ?s1) = ''blood''" "cstr (body ?s2) = ''blood''"
    by code_simp+
  note r1 = color_render [of 20, OF _ a(1) sscanf_6x_red, of toy_extern]
  note r2 = color_render [of 21, OF _ a(2) sscanf_6x_short, of toy_extern]
  have "closes_with toy_extern 20 ?s1 ([CHR 0x1B] @ ''[38;5;196mblood'' @ [CHR 0x1B] @ ''[0m'')"
    using r1 by (simp add: b fmt_u_toy)
  moreover have "(0xFF0000 :: 32 word) = of_nat (hex6_value ''ff0000'')"
    using r1 is_hex6_red by simp
  moreover have
    "closes_with toy_extern 21 ?s2 ([CHR 0x1B] @ ''[48;5;16mblood'' @ [CHR 0x1B] @ ''[0m'')"
    using r2 by (simp add: b fmt_u_toy)
  ultimately show ?thesis by simp
qed

text \<open>
  The claim as stated has the escapes wrap the body. For code 20, the argument
  \<^verbatim>\<open>ff0000\<close> and the three-byte body \<open>a\<close>, NUL, \<open>b\<close> only \<open>a\<close> is wrapped.
\<close>

theorem color_body_counterexample:
  "argstr (tag_events (Some ''ff0000'') [CHR ''a'', CHR 0x00, CHR ''b''] session0)
     = Some ''ff0000''
   \<and> body (tag_events (Some ''ff0000'') [CHR ''a'', CHR 0x00, CHR ''b''] session0)
       = [CHR ''a'', CHR 0x00, CHR ''b'']
   \<and> closes_with toy_extern 20
       (tag_events (Some ''ff0000'') [CHR ''a'', CHR 0x00, CHR ''b''] session0)
       ([CHR 0x1B] @ ''[38;5;196ma'' @ [CHR 0x1B] @ ''[0m'')
   \<and> \<not> closes_with toy_extern 20
       (tag_events (Some ''ff0000'') [CHR ''a'', CHR 0x00, CHR ''b''] session0)
       ([CHR 0x1B] @ ''[38;5;196m'' @ [CHR ''a'', CHR 0x00, CHR ''b''] @ [CHR 0x1B] @ ''[0m'')"
proof -
  let ?s = "tag_events (Some ''ff0000'') [CHR ''a'', CHR 0x00, CHR ''b''] session0"
  have a: "argstr ?s = Some ''ff0000''" by code_simp
  have b: "body ?s = [CHR ''a'', CHR 0x00, CHR ''b'']" "cstr (body ?s) = ''a''"
    by code_simp+
  have act: "closes_with toy_extern 20 ?s ([CHR 0x1B] @ ''[38;5;196ma'' @ [CHR 0x1B] @ ''[0m'')"
    using color_bytes [of 20, OF _ a, of toy_extern]
    by (simp add: b(2) color_rgb_red fmt_u_toy)
  have "\<not> closes_with toy_extern 20 ?s
       ([CHR 0x1B] @ ''[38;5;196m'' @ [CHR ''a'', CHR 0x00, CHR ''b''] @ [CHR 0x1B] @ ''[0m'')"
    using closes_with_unique [OF act] by simp
  with a b(1) act show ?thesis by simp
qed

text \<open>
  Claim C5, as amended. For every known tag code other than the mapper code 99, the bytes
  appended by the tag-closed event are determined by the code, the presence and value of
  the argument string and the body, together with the palette function: two dispatches
  that agree on these append the same bytes, whatever the output already holds and
  whatever location is stored. For the colour codes 20 and 21 this is stated for an
  absent argument and for an argument that \<^verbatim>\<open>%6x\<close> converts. The mapper code is left
  out: its output names the stored location.
\<close>

theorem render_deterministic:
  assumes "c \<in> set known_codes" and "c \<noteq> 99"
    and "well_formed (tmpbuf st1)" and "well_formed (tmpbuf st2)"
    and "argstr st1 = argstr st2" and "body st1 = body st2"
    and "rgb_to_xterm e1 = rgb_to_xterm e2"
    and "c = 20 \<or> c = 21 \<longrightarrow> (\<forall>a. argstr st1 = Some a \<longrightarrow> sscanf_6x a \<noteq> None)"
  shows "closes_with e1 c st1 out \<longleftrightarrow> closes_with e2 c st2 out"
proof -
  obtain out' where
    "contents (obuf (render e1 c (body st1 @ [CHR 0x00]) (terminated st1)))
       = contents (obuf st1) @ out'"
    "contents (obuf (render e2 c (body st2 @ [CHR 0x00]) (terminated st2)))
       = contents (obuf st2) @ out'"
    using render_frame [OF assms(2-8)] by blast
  then show ?thesis
    by (simp add: closes_with_render)
qed

theorem render_deterministic_witness:
  "closes_with toy_extern 10 (tag_events (Some ''chan_sky'') ''hello'' session0)
     ''chan_sky: hello''
   \<and> closes_with other_extern 10
       (tag_events (Some ''chan_sky'') ''hello'' (on_text (session0\<lparr>room := Some room_k7\<rparr>) ''abc'' 3))
       ''chan_sky: hello''
   \<and> closes_with toy_extern 20 (tag_events (Some ''ff0000'') ''blood'' session0)
       ([CHR 0x1B] @ ''[38;5;196mblood'' @ [CHR 0x1B] @ ''[0m'')
   \<and> closes_with other_extern 20
       (tag_events (Some ''ff0000'') ''blood'' (on_text (session0\<lparr>room := Some room_k7\<rparr>) ''abc'' 3))
       ([CHR 0x1B] @ ''[38;5;196mblood'' @ [CHR 0x1B] @ ''[0m'')"
proof -
  let ?t = "on_text (session0\<lparr>room := Some room_k7\<rparr>) ''abc'' 3"
  let ?a1 = "tag_events (Some ''chan_sky'') ''hello'' session0"
  let ?a2 = "tag_events (Some ''chan_sky'') ''hello'' ?t"
  let ?b1 = "tag_events (Some ''ff0000'') ''blood'' session0"
  let ?b2 = "tag_events (Some ''ff0000'') ''blood'' ?t"
  have k: "(10 :: int) \<in> set known_codes" "(20 :: int) \<in> set known_codes"
    by code_simp+
  have w: "well_formed (tmpbuf ?a1)" "well_formed (tmpbuf ?a2)"
    "well_formed (tmpbuf ?b1)" "well_formed (tmpbuf ?b2)"
    by code_simp+
  have a: "argstr ?a1 = argstr ?a2" "argstr ?b1 = argstr ?b2"
    "argstr ?b1 = Some ''ff0000''"
    by code_simp+
  have b: "body ?a1 = body ?a2" "body ?b1 = body ?b2" "cstr (body ?b1) = ''blood''"
    by code_simp+
  have p: "rgb_to_xterm toy_extern = rgb_to_xterm other_extern"
    by (simp add: toy_extern_def other_extern_def)
  have s: "sscanf_6x ''ff0000'' \<noteq> None"
    using sscanf_6x_hex6 [OF is_hex6_red] by simp
  have x1: "closes_with toy_extern 10 ?a1 ''chan_sky: hello''"
    by code_simp
  have x2: "closes_with toy_extern 20 ?b1
      ([CHR 0x1B] @ ''[38;5;196mblood'' @ [CHR 0x1B] @ ''[0m'')"
    using color_bytes [of 20, OF _ a(3), of toy_extern]
    by (simp add: b(3) color_rgb_red fmt_u_toy)
  have "closes_with other_extern 10 ?a2 ''chan_sky: hello''"
    using render_deterministic [OF k(1) _ w(1) w(2) a(1) b(1) p, of "''chan_sky: hello''"] x1
    by simp
  moreover have "closes_with other_extern 20 ?b2
      ([CHR 0x1B] @ ''[38;5;196mblood'' @ [CHR 0x1B] @ ''[0m'')"
    using render_deterministic [OF k(2) _ w(3) w(4) a(2) b(2) p,
        of "[CHR 0x1B] @ ''[38;5;196mblood'' @ [CHR 0x1B] @ ''[0m''"] x2 a(3) s
    by simp
  ultimately show ?thesis using x1 x2 by simp
qed

text \<open>
  The claim as stated covers every known code. For the mapper code 99, without an
  argument and with the body \<^verbatim>\<open>BAT_MAPPER;;REALM_MAP\<close>, a session that stores no location
  and one that stores a location in \<^verbatim>\<open>arelium\<close> append different bytes.
\<close>

theorem render_deterministic_counterexample:
  "99 \<in> set known_codes
   \<and> argstr (tag_events None ''BAT_MAPPER;;REALM_MAP'' session0)
       = argstr (tag_events None ''BAT_MAPPER;;REALM_MAP'' (session0\<lparr>room := Some room_r1\<rparr>))
   \<and> body (tag_events None ''BAT_MAPPER;;REALM_MAP'' session0)
       = body (tag_events None ''BAT_MAPPER;;REALM_MAP'' (session0\<lparr>room := Some room_r1\<rparr>))
   \<and> closes_with toy_extern 99 (tag_events None ''BAT_MAPPER;;REALM_MAP'' session0)
       (''Exited to map from (unknown).'' @ [CHR 0x0A])
   \<and> closes_with toy_extern 99
       (tag_events None ''BAT_MAPPER;;REALM_MAP'' (session0\<lparr>room := Some room_r1\<rparr>))
       (''Exited to map from arelium.'' @ [CHR 0x0A])
   \<and> \<not> closes_with toy_extern 99
       (tag_events None ''BAT_MAPPER;;REALM_MAP'' (session0\<lparr>room := Some room_r1\<rparr>))
       (''Exited to map from (unknown).'' @ [CHR 0x0A])"
  by code_simp

text \<open>
  Claim C6, as amended. A tag whose code is outside the known set appends
  \<^verbatim>\<open>[unknown tag \<close>, the code in decimal, \<^verbatim>\<open>]\<close>, the body up to its first NUL byte
  (the whole body when it holds none) and a newline. The body is printed with \<^verbatim>\<open>%s\<close>
  from the NUL-terminated scratch region, so a NUL inside the body ends it.
\<close>

theorem unknown_tag_render:
  assumes "c \<notin> set known_codes"
  shows "closes_with e c st (''[unknown tag '' @ fmt_d c @ '']'' @ cstr (body st) @ [CHR 0x0A])"
  using assms by (rule unknown_bytes)

theorem unknown_tag_render_witness:
  "closes_with toy_extern 77 (tag_events None ''hello'' session0)
     (''[unknown tag 77]hello'' @ [CHR 0x0A])"
proof -
  let ?s = "tag_events None ''hello'' session0"
  have k: "(77 :: int) \<notin> set known_codes" by code_simp
  have b: "cstr (body ?s) = ''hello''" by code_simp
  have d: "fmt_d 77 = ''77''" by code_simp
  show ?thesis
    using unknown_tag_render [OF k, of toy_extern ?s] by (simp add: b d)
qed

text \<open>
  The claim as stated promises the raw body. For the unknown code 77 and the three-byte
  body \<open>a\<close>, NUL, \<open>b\<close> the output stops after \<open>a\<close>.
\<close>

theorem unknown_tag_raw_body_counterexample:
  "77 \<notin> set known_codes
   \<and> body (tag_events None [CHR ''a'', CHR 0x00, CHR ''b''] session0)
       = [CHR ''a'', CHR 0x00, CHR ''b'']
   \<and> closes_with toy_extern 77 (tag_events None [CHR ''a'', CHR 0x00, CHR ''b''] session0)
       (''[unknown tag 77]a'' @ [CHR 0x0A])
   \<and> \<not> closes_with toy_extern 77 (tag_events None [CHR ''a'', CHR 0x00, CHR ''b''] session0)
       (''[unknown tag 77]'' @ [CHR ''a'', CHR 0x00, CHR ''b''] @ [CHR 0x0A])"
  by code_simp

text \<open>
  Claim C7. A tag-opened event that finds the session pending (scratch content or an
  argument string left by a tag that was not closed) has exactly the effect of one
  tag-closed event: the output grows by what that one render appends. The session it
  leaves is no longer pending, so a further tag-opened event closes nothing.
\<close>

theorem open_closes_pending_once:
  assumes "pending st"
  shows
    "on_open e (at_tag c) st = on_close e (at_tag c) st
   \<and> (\<exists>st'. on_open e (at_tag c) st = Inr st' \<and> \<not> pending st'
          \<and> on_open e (at_tag c') st' = Inr st')
   \<and> (closes_with e c st out \<longleftrightarrow> opens_with e c st out)"
proof -
  have eq: "on_open e (at_tag c) st = on_close e (at_tag c) st"
    using assms by (rule on_open_pending)
  obtain st' where st': "on_close e (at_tag c) st = Inr st'"
    by (simp add: on_close_at_tag)
  have np: "\<not> pending st'"
    using st' by (rule on_close_not_pending)
  have "on_open e (at_tag c') st' = Inr st'"
    using np by (rule on_open_clean)
  moreover have "closes_with e c st out \<longleftrightarrow> opens_with e c st out"
    by (simp add: closes_with_def opens_with_def eq st' np)
  ultimately show ?thesis using eq st' np by simp
qed

theorem open_closes_pending_once_witness:
  "on_open toy_extern (at_tag 22) (tag_events None ''partial'' session0)
     = on_close toy_extern (at_tag 22) (tag_events None ''partial'' session0)
   \<and> opens_with toy_extern 22 (tag_events None ''partial'' session0) ''partial''
   \<and> \<not> opens_with toy_extern 22 (tag_events None ''partial'' session0) ''partialpartial''"
proof -
  let ?s = "tag_events None ''partial'' session0"
  have p: "pending ?s" by code_simp
  have c: "closes_with toy_extern 22 ?s ''partial''" by code_simp
  have "\<not> closes_with toy_extern 22 ?s ''partialpartial''"
    using closes_with_unique [OF c] by simp
  then show ?thesis
    using open_closes_pending_once [OF p, of toy_extern 22] c by simp
qed

text \<open>
  Claim C8. After a tag-closed event, whatever the code and whichever branch rendered it,
  the scratch buffer has length zero and the argument string is absent.
\<close>

theorem close_resets_scratch:
  "\<exists>st'. on_close e (at_tag c) st = Inr st' \<and> len (tmpbuf st') = 0 \<and> argstr st' = None"
  by (simp add: on_close_at_tag buffer_clear_def)

text \<open>
  Claim C9. The connection-status codes 5 and 6, the screen-clear code 11 and the
  telemetry codes 40, 41, 42, 50, 51, 52, 53, 54 and 60 append nothing: the content of the
  output buffer after the tag-closed event is the content before it.
\<close>

theorem silent_codes:
  assumes "c \<in> set [5, 6, 11, 40, 41, 42, 50, 51, 52, 53, 54, 60]"
  shows "closes_with e c st []"
  using assms by (rule silent_bytes)

theorem silent_codes_witness:
  "closes_with toy_extern 50 (tag_events None ''512 600 210 300 140 200'' session0) []"
proof -
  have "(50 :: int) \<in> set [5, 6, 11, 40, 41, 42, 50, 51, 52, 53, 54, 60]" by simp
  then show ?thesis by (rule silent_codes)
qed

text \<open>
  Claim C10. A colour tag (code 20 or 21) that is closed without an argument string
  appends nothing to the output buffer, and its accumulated body is dropped with the
  scratch buffer.
\<close>

theorem color_without_argument:
  assumes "c = 20 \<or> c = 21" and "argstr st = None"
  shows "closes_with e c st [] \<and> closes_clean e c st"
  using color_silent [OF assms] closes_clean_always by simp

theorem color_without_argument_witness:
  "closes_with toy_extern 20 (tag_events None ''crimson'' session0) []
   \<and> closes_clean toy_extern 20 (tag_events None ''crimson'' session0)
   \<and> closes_with toy_extern 21 (tag_events None ''crimson'' session0) []
   \<and> closes_clean toy_extern 21 (tag_events None ''crimson'' session0)"
proof -
  have a: "argstr (tag_events None ''crimson'' session0) = None" by code_simp
  show ?thesis
    using color_without_argument [of 20, OF _ a, of toy_extern]
      color_without_argument [of 21, OF _ a, of toy_extern]
    by simp
qed

end
